theory Spec2Isabelle
  imports Main "HOL-Library.Word"
begin

section \<open>Errors and values\<close>

text \<open>
  Go errors are compared by identity against package-level sentinels
  (\<open>document.ErrStreamClosed\<close>, \<open>engine.ErrKeyNotFound\<close>,
  \<open>database.ErrTableAlreadyExists\<close>, \<open>database.ErrTableNotFound\<close>). Every other
  error value (an engine failure, a conversion failure, an error returned by a user
  function) is \<open>OtherError\<close> with a tag that tells two such errors apart. A Go
  \<open>error\<close> result is an \<open>error option\<close>, \<open>None\<close> being \<open>nil\<close>.
  \<open>NilDereference\<close> is not an error value: it marks the run-time panic of a nil
  pointer dereference, where a function does not return at all.
\<close>

datatype error =
    ErrStreamClosed
  | ErrKeyNotFound
  | ErrTableAlreadyExists
  | ErrTableNotFound
  | ErrFieldNotFound
  | NilDereference
  | OtherError nat

text \<open>
  Modelled from the spec: \<open>document.Value\<close>, whose declaration is not part of the
  sources at hand. The spec (section 3) describes a tagged value; the kinds kept here
  are the ones the catalog and the logical operators touch. \<open>IsTruthy\<close> follows
  section 4.7: a non-Null value is truthy iff it differs from the zero value of its
  kind, and Null is never truthy.
\<close>

datatype val =
    NullValue
  | BoolValue bool
  | Uint8Value "8 word"
  | Int64Value "64 word"
  | StringValue string

fun IsTruthy :: "val \<Rightarrow> bool" where
  "IsTruthy NullValue = False"
| "IsTruthy (BoolValue b) = b"
| "IsTruthy (Uint8Value x) = (x \<noteq> 0)"
| "IsTruthy (Int64Value x) = (x \<noteq> 0)"
| "IsTruthy (StringValue s) = (s \<noteq> [])"

definition trueLitteral :: val where
  "trueLitteral = BoolValue True"

definition falseLitteral :: val where
  "falseLitteral = BoolValue False"

section \<open>Logical operators of the expression evaluator\<close>

text \<open>
  \<open>Expr\<close> is an interface with one method \<open>Eval(ctx EvalStack) (document.Value, error)\<close>.
  The two implementations at hand are \<open>AndOp\<close> and \<open>OrOp\<close>; any other expression is
  \<open>OtherExpr\<close>, given by its \<open>Eval\<close> method. A Go call returns both results, so
  \<open>Eval\<close> returns a pair.
\<close>

datatype 'ctx expr =
    And "'ctx expr" "'ctx expr"
  | Or "'ctx expr" "'ctx expr"
  | OtherExpr "'ctx \<Rightarrow> val \<times> error option"

fun Eval :: "'ctx expr \<Rightarrow> 'ctx \<Rightarrow> val \<times> error option" where
  "Eval (And a b) ctx =
     (case Eval a ctx of (s, err) \<Rightarrow>
        if err \<noteq> None \<or> \<not> IsTruthy s then (falseLitteral, err)
        else (case Eval b ctx of (s, err) \<Rightarrow>
          if err \<noteq> None \<or> \<not> IsTruthy s then (falseLitteral, err)
          else (trueLitteral, None)))"
| "Eval (Or a b) ctx =
     (case Eval a ctx of (s, err) \<Rightarrow>
        if err \<noteq> None then (falseLitteral, err)
        else if IsTruthy s then (trueLitteral, None)
        else (case Eval b ctx of (s, err) \<Rightarrow>
          if err \<noteq> None then (falseLitteral, err)
          else if IsTruthy s then (trueLitteral, None)
          else (falseLitteral, None)))"
| "Eval (OtherExpr f) ctx = f ctx"

text \<open>Three concrete leaves: a falsy one, a truthy one and one whose evaluation fails.\<close>

definition falsyExpr :: "unit expr" where
  "falsyExpr = OtherExpr (\<lambda>ctx. (Int64Value 0, None))"

definition truthyExpr :: "unit expr" where
  "truthyExpr = OtherExpr (\<lambda>ctx. (StringValue ''x'', None))"

definition failingExpr :: "unit expr" where
  "failingExpr = OtherExpr (\<lambda>ctx. (NullValue, Some (OtherError 7)))"

section \<open>Opening a database\<close>

text \<open>
  \<open>Open\<close> chooses between two engine constructors that live outside the repository
  (\<open>badgerengine.NewEngine\<close> and \<open>boltengine.NewEngine\<close>) and hands the engine to
  \<open>New\<close>. The constructors and \<open>New\<close> are parameters of the model; what \<open>Open\<close>
  asks of them is an \<open>engine_request\<close>. \<open>badger.DefaultOptions("")\<close> with
  \<open>WithInMemory(true)\<close> and \<open>WithLogger(nil)\<close> is the record below; the file mode is
  the Go literal \<open>0660\<close>, which is octal.
\<close>

record badger_options =
  Dir :: string
  InMemory :: bool
  Logger :: "unit option"

datatype engine_request =
    BadgerEngine badger_options
  | BoltEngine string nat "unit option"

definition file_mode_0660 :: nat where
  "file_mode_0660 = 6 * 64 + 6 * 8 + 0"

definition Open ::
  "(engine_request \<Rightarrow> error + 'ng) \<Rightarrow> ('ng \<Rightarrow> error + 'db) \<Rightarrow> string \<Rightarrow> error + 'db" where
  "Open NewEngine New path =
     (case (if path = '':memory:''
            then NewEngine (BadgerEngine \<lparr>Dir = [], InMemory = True, Logger = None\<rparr>)
            else NewEngine (BoltEngine path file_mode_0660 None)) of
        Inl err \<Rightarrow> Inl err
      | Inr ng \<Rightarrow> New ng)"

section \<open>The table catalog\<close>

text \<open>
  Modelled from the spec: \<open>engine.Store\<close>, an interface whose implementations are
  outside the repository. Section 4.1 gives its contract: \<open>Put(key, value)\<close>,
  \<open>Get(key)\<close> returning the value or \<open>ErrKeyNotFound\<close>, \<open>Delete(key)\<close> returning
  \<open>ErrKeyNotFound\<close> on a missing key. Keys are the bytes of a Go string, kept as a
  \<open>string\<close>. Every method can also fail with an error of the engine itself; the field
  \<open>failure\<close> holds such an error when the engine is in a failed state (a discarded
  transaction, for one), and then every call returns it and changes nothing.
\<close>

record 'e store =
  entries :: "string \<rightharpoonup> 'e"
  failure :: "error option"

definition Store_Get :: "'e store \<Rightarrow> string \<Rightarrow> error + 'e" where
  "Store_Get st key =
     (case failure st of
        Some err \<Rightarrow> Inl err
      | None \<Rightarrow> (case entries st key of None \<Rightarrow> Inl ErrKeyNotFound | Some v \<Rightarrow> Inr v))"

definition Store_Put :: "'e store \<Rightarrow> string \<Rightarrow> 'e \<Rightarrow> error option \<times> 'e store" where
  "Store_Put st key v =
     (case failure st of
        Some err \<Rightarrow> (Some err, st)
      | None \<Rightarrow> (None, st\<lparr>entries := (entries st)(key \<mapsto> v)\<rparr>))"

definition Store_Delete :: "'e store \<Rightarrow> string \<Rightarrow> error option \<times> 'e store" where
  "Store_Delete st key =
     (case failure st of
        Some err \<Rightarrow> (Some err, st)
      | None \<Rightarrow>
          (case entries st key of
             None \<Rightarrow> (Some ErrKeyNotFound, st)
           | Some v \<Rightarrow> (None, st\<lparr>entries := (entries st)(key := None)\<rparr>)))"

text \<open>
  Modelled from the spec: the functions of the packages \<open>document\<close> and
  \<open>document/encoding\<close> that the catalog calls, none of which is in the sources at
  hand. They are parameters of the model, collected in a record: \<open>EncodeDocument\<close>
  turns a field buffer into its encoded form \<open>'e\<close>, \<open>GetByField\<close> is the
  random-access decoder of section 4.2, and the three conversions are methods of
  \<open>document.Value\<close>. A \<open>document.FieldBuffer\<close> is the ordered list of its fields
  and \<open>Add\<close> appends one.
\<close>

type_synonym FieldBuffer = "(string \<times> val) list"

definition Add :: "FieldBuffer \<Rightarrow> string \<Rightarrow> val \<Rightarrow> FieldBuffer" where
  "Add fb name v = fb @ [(name, v)]"

record 'e codec =
  EncodeDocument :: "FieldBuffer \<Rightarrow> error + 'e"
  GetByField :: "'e \<Rightarrow> string \<Rightarrow> error + val"
  ConvertToString :: "val \<Rightarrow> error + string"
  ConvertToUint8 :: "val \<Rightarrow> error + 8 word"
  ConvertToInt64 :: "val \<Rightarrow> error + 64 word"

text \<open>
  What the spec promises of these functions: the encoding round-trips (section 8,
  property 1: decoding an encoded document yields the same fields, so a field that was
  added once is found again with its value), and a value converts to its own kind
  unchanged (section 3).
\<close>

definition codec_round_trip :: "'e codec \<Rightarrow> bool" where
  "codec_round_trip c \<longleftrightarrow>
     (\<forall>fb e f v. EncodeDocument c fb = Inr e \<and> distinct (map fst fb) \<and> (f, v) \<in> set fb
        \<longrightarrow> GetByField c e f = Inr v) \<and>
     (\<forall>s. ConvertToString c (StringValue s) = Inr s) \<and>
     (\<forall>x. ConvertToUint8 c (Uint8Value x) = Inr x) \<and>
     (\<forall>x. ConvertToInt64 c (Int64Value x) = Inr x)"

text \<open>
  A codec that satisfies the contract: the encoded form is the field list itself. It
  shows that the contract can be met and serves to run the catalog on concrete inputs.
\<close>

definition listCodec :: "FieldBuffer codec" where
  "listCodec =
     \<lparr>EncodeDocument = (\<lambda>fb. Inr fb),
      GetByField = (\<lambda>e f. case map_of e f of None \<Rightarrow> Inl ErrFieldNotFound | Some v \<Rightarrow> Inr v),
      ConvertToString = (\<lambda>v. case v of StringValue s \<Rightarrow> Inr s | _ \<Rightarrow> Inl (OtherError 0)),
      ConvertToUint8 = (\<lambda>v. case v of Uint8Value x \<Rightarrow> Inr x | _ \<Rightarrow> Inl (OtherError 0)),
      ConvertToInt64 = (\<lambda>v. case v of Int64Value x \<Rightarrow> Inr x | _ \<Rightarrow> Inl (OtherError 0))\<rparr>"

text \<open>
  \<open>TableConfig\<close>. \<open>document.ValueType\<close> is declared outside the sources at hand;
  it is the one-byte kind tag of section 4.2, so the casts \<open>uint8(cfg.PrimaryKeyType)\<close>
  and \<open>document.ValueType(tp)\<close> are casts between 8-bit types. \<open>lastKey\<close> is an
  \<open>int64\<close>.
\<close>

type_synonym ValueType = "8 word"

record TableConfig =
  PrimaryKeyName :: string
  PrimaryKeyType :: ValueType
  lastKey :: "64 word"

text \<open>The field buffer that \<open>Insert\<close> and \<open>Replace\<close> build, by three calls of \<open>Add\<close>.\<close>

definition configFields :: "TableConfig \<Rightarrow> FieldBuffer" where
  "configFields cfg =
     Add (Add (Add [] ''PrimaryKeyName'' (StringValue (PrimaryKeyName cfg)))
              ''PrimaryKeyType'' (Uint8Value (ucast (PrimaryKeyType cfg))))
         ''lastKey'' (Int64Value (lastKey cfg))"

text \<open>
  The methods of \<open>tableConfigStore\<close>. The store \<open>t.st\<close> is passed in and returned
  with the error. \<open>key := []byte(tableName)\<close> is the table name itself.
\<close>

definition tableConfigStore_Insert ::
  "'e codec \<Rightarrow> 'e store \<Rightarrow> string \<Rightarrow> TableConfig \<Rightarrow> error option \<times> 'e store" where
  "tableConfigStore_Insert c st tableName cfg =
     (let key = tableName in
      case Store_Get st key of
        Inr v0 \<Rightarrow> (Some ErrTableAlreadyExists, st)
      | Inl err \<Rightarrow>
          if err \<noteq> ErrKeyNotFound then (Some err, st)
          else (case EncodeDocument c (configFields cfg) of
                  Inl err \<Rightarrow> (Some err, st)
                | Inr v \<Rightarrow> Store_Put st key v))"

text \<open>
  \<open>Replace\<close> takes a pointer to the configuration, which it dereferences only after
  the key was found; a nil pointer makes the Go code panic there, which the model
  reports as \<open>NilDereference\<close> with the store unchanged.
\<close>

definition tableConfigStore_Replace ::
  "'e codec \<Rightarrow> 'e store \<Rightarrow> string \<Rightarrow> TableConfig option \<Rightarrow> error option \<times> 'e store" where
  "tableConfigStore_Replace c st tableName cfg =
     (let key = tableName in
      case Store_Get st key of
        Inl err \<Rightarrow> if err = ErrKeyNotFound then (Some ErrTableNotFound, st) else (Some err, st)
      | Inr v0 \<Rightarrow>
          (case cfg of
             None \<Rightarrow> (Some NilDereference, st)
           | Some cfg' \<Rightarrow>
               (case EncodeDocument c (configFields cfg') of
                  Inl err \<Rightarrow> (Some err, st)
                | Inr v \<Rightarrow> Store_Put st key v)))"

definition tableConfigStore_Get :: "'e codec \<Rightarrow> 'e store \<Rightarrow> string \<Rightarrow> error + TableConfig" where
  "tableConfigStore_Get c st tableName =
     (let key = tableName in
      case Store_Get st key of
        Inl err \<Rightarrow> if err = ErrKeyNotFound then Inl ErrTableNotFound else Inl err
      | Inr r \<Rightarrow>
          (case GetByField c r ''PrimaryKeyName'' of Inl err \<Rightarrow> Inl err | Inr f \<Rightarrow>
           case ConvertToString c f of Inl err \<Rightarrow> Inl err | Inr name \<Rightarrow>
           case GetByField c r ''PrimaryKeyType'' of Inl err \<Rightarrow> Inl err | Inr f \<Rightarrow>
           case ConvertToUint8 c f of Inl err \<Rightarrow> Inl err | Inr tp \<Rightarrow>
           case GetByField c r ''lastKey'' of Inl err \<Rightarrow> Inl err | Inr f \<Rightarrow>
           case ConvertToInt64 c f of Inl err \<Rightarrow> Inl err | Inr k \<Rightarrow>
             Inr \<lparr>PrimaryKeyName = name, PrimaryKeyType = ucast tp, lastKey = k\<rparr>))"

definition tableConfigStore_Delete :: "'e store \<Rightarrow> string \<Rightarrow> error option \<times> 'e store" where
  "tableConfigStore_Delete st tableName =
     (let key = tableName in
      case Store_Delete st key of
        (err, st') \<Rightarrow> if err = Some ErrKeyNotFound then (Some ErrTableNotFound, st') else (err, st'))"

text \<open>Concrete catalog data: an empty store, a store with one table, two configurations.\<close>

definition emptyStore :: "FieldBuffer store" where
  "emptyStore = \<lparr>entries = Map.empty, failure = None\<rparr>"

definition usersConfig :: TableConfig where
  "usersConfig = \<lparr>PrimaryKeyName = ''id'', PrimaryKeyType = 13, lastKey = 0\<rparr>"

definition usersConfig2 :: TableConfig where
  "usersConfig2 = \<lparr>PrimaryKeyName = [], PrimaryKeyType = 0, lastKey = 41\<rparr>"

definition usersStore :: "FieldBuffer store" where
  "usersStore =
     \<lparr>entries = [''users'' \<mapsto>
        [(''PrimaryKeyName'', StringValue ''id''),
         (''PrimaryKeyType'', Uint8Value 13),
         (''lastKey'', Int64Value 0)]],
      failure = None\<rparr>"

definition usersStore2 :: "FieldBuffer store" where
  "usersStore2 =
     \<lparr>entries = [''users'' \<mapsto>
        [(''PrimaryKeyName'', StringValue []),
         (''PrimaryKeyType'', Uint8Value 0),
         (''lastKey'', Int64Value 41)]],
      failure = None\<rparr>"

definition noTables :: "FieldBuffer store" where
  "noTables = \<lparr>entries = Map.empty, failure = None\<rparr>"

section \<open>Iterators and streams\<close>

text \<open>
  A \<open>Document\<close> is a Go interface value, so it can be \<open>nil\<close>: \<open>None\<close> here.
\<close>

type_synonym 'd Document = "'d option"

text \<open>
  \<open>Iterate(fn)\<close> calls the callback \<open>fn\<close> on documents and goes on or stops
  depending on the error each call returns, until it returns an error itself. What one
  call of \<open>Iterate\<close> does is therefore an \<open>iteration\<close>: either it returns
  (\<open>Return err\<close>), or it calls \<open>fn\<close> on a document and continues as the answer of
  \<open>fn\<close> says (\<open>Call r k\<close>). The callback is a Go closure with state of its own (a
  counter, a variable it assigns); \<open>run_with\<close> runs an iteration against a callback
  \<open>fn\<close> that takes the state \<open>c\<close> of the closure and returns it updated with the
  error, and gives the error \<open>Iterate\<close> returns and the final state.
\<close>

datatype 'd iteration =
    Return "error option"
  | Call "'d Document" "error option \<Rightarrow> 'd iteration"

primrec run_with ::
  "'d iteration \<Rightarrow> ('d Document \<Rightarrow> 'c \<Rightarrow> error option \<times> 'c) \<Rightarrow> 'c \<Rightarrow> error option \<times> 'c" where
  "run_with (Return err) fn c = (err, c)"
| "run_with (Call r k) fn c = (case fn r c of (err, c') \<Rightarrow> run_with (k err) fn c')"

text \<open>\<open>andThen b f\<close>: do \<open>b\<close>, then go on with \<open>f err\<close>, \<open>err\<close> being what \<open>b\<close> returned.\<close>

primrec andThen :: "'d iteration \<Rightarrow> (error option \<Rightarrow> 'd iteration) \<Rightarrow> 'd iteration" where
  "andThen (Return err) f = f err"
| "andThen (Call r k) f = Call r (\<lambda>e. andThen (k e) f)"

text \<open>
  A \<open>StreamOperator\<close> is a \<open>func() func(r Document) (Document, error)\<close>: calling it
  yields a closure with fresh private state. The operators of the package keep one
  \<open>int\<close> counter, so an operator is the initial value of the counter (\<open>start\<close>) and
  the body of the closure (\<open>opFn\<close>), which takes the counter and returns it updated.
  The counters are only incremented while below the \<open>int\<close> argument of \<open>Limit\<close> or
  \<open>Offset\<close>, so they never overflow and \<open>int\<close> needs no wrap-around.
\<close>

datatype 'd StreamOperator =
  StreamOperator (start: int) (opFn: "int \<Rightarrow> 'd Document \<Rightarrow> ('d Document \<times> error option) \<times> int")

text \<open>
  The implementations of the interface \<open>Iterator\<close>: \<open>documentsIterator\<close> (a slice of
  documents), \<open>Stream\<close> (the fields \<open>it\<close> and \<open>op\<close>, either of which can be nil),
  \<open>multiIterator\<close> (a slice of iterators), and any implementation from outside the
  package, given by what its \<open>Iterate\<close> does.
\<close>

datatype 'd Iterator =
    documentsIterator "'d Document list"
  | StreamIterator "'d Iterator option" "'d StreamOperator option"
  | multiIterator "'d Iterator list"
  | otherIterator "'d iteration"

record 'd Stream =
  it :: "'d Iterator option"
  op :: "'d StreamOperator option"

definition asIterator :: "'d Stream \<Rightarrow> 'd Iterator" where
  "asIterator s = StreamIterator (it s) (op s)"

definition NewIterator :: "'d Document list \<Rightarrow> 'd Iterator" where
  "NewIterator documents = documentsIterator documents"

text \<open>\<open>documentsIterator.Iterate\<close>: the loop over the slice stops at the first error.\<close>

fun documentsIterator_Iterate :: "'d Document list \<Rightarrow> 'd iteration" where
  "documentsIterator_Iterate [] = Return None"
| "documentsIterator_Iterate (r # rr) =
     Call r (\<lambda>err. if err \<noteq> None then Return err else documentsIterator_Iterate rr)"

text \<open>
  \<open>Stream.Iterate\<close> with an operator passes to \<open>s.it.Iterate\<close> a closure that
  applies \<open>opFn\<close> to the document, returns the error of \<open>opFn\<close> if there is one,
  returns nil if the resulting document is nil, and calls \<open>fn\<close> on the resulting
  document otherwise. \<open>through opFn b st\<close> is the iteration \<open>b\<close> of \<open>s.it\<close> run
  against that closure, \<open>st\<close> being the counter of \<open>opFn\<close>: only the calls of
  \<open>fn\<close> remain.
\<close>

primrec through ::
  "(int \<Rightarrow> 'd Document \<Rightarrow> ('d Document \<times> error option) \<times> int) \<Rightarrow> 'd iteration \<Rightarrow> int
     \<Rightarrow> 'd iteration" where
  "through f (Return err) st = Return err"
| "through f (Call r k) st =
     (case f st r of ((r', err), st') \<Rightarrow>
        if err \<noteq> None then through f (k err) st'
        else if r' = None then through f (k None) st'
        else Call r' (\<lambda>e. through f (k e) st'))"

text \<open>
  \<open>Iterate\<close> dispatches on the implementation. For a \<open>Stream\<close> the cases follow the
  source: \<open>s.it == nil\<close> first, then \<open>s.op == nil\<close>, then the piped iteration whose
  error is returned unless it is \<open>ErrStreamClosed\<close>, which becomes nil.
  \<open>multiIterator.Iterate\<close> iterates its iterators in turn and returns the first error.
\<close>

fun Iterate :: "'d Iterator \<Rightarrow> 'd iteration"
  and multiIterator_Iterate :: "'d Iterator list \<Rightarrow> 'd iteration" where
  "Iterate (documentsIterator rr) = documentsIterator_Iterate rr"
| "Iterate (StreamIterator None sop) = Return None"
| "Iterate (StreamIterator (Some src) None) = Iterate src"
| "Iterate (StreamIterator (Some src) (Some sop)) =
     andThen (through (opFn sop) (Iterate src) (start sop))
       (\<lambda>err. if err \<noteq> Some ErrStreamClosed then Return err else Return None)"
| "Iterate (multiIterator its) = multiIterator_Iterate its"
| "Iterate (otherIterator b) = b"
| "multiIterator_Iterate [] = Return None"
| "multiIterator_Iterate (i # its) =
     andThen (Iterate i) (\<lambda>err. if err \<noteq> None then Return err else multiIterator_Iterate its)"

definition Stream_Iterate :: "'d Stream \<Rightarrow> 'd iteration" where
  "Stream_Iterate s = Iterate (asIterator s)"

text \<open>
  The closure of \<open>Stream.Iterate\<close> as the source writes it, with the counter of
  \<open>opFn\<close> and the state of \<open>fn\<close> passed along: \<open>through\<close> is compared with it below.
\<close>

definition opwrap ::
  "(int \<Rightarrow> 'd Document \<Rightarrow> ('d Document \<times> error option) \<times> int) \<Rightarrow>
   ('d Document \<Rightarrow> 'c \<Rightarrow> error option \<times> 'c) \<Rightarrow>
   'd Document \<Rightarrow> int \<times> 'c \<Rightarrow> error option \<times> (int \<times> 'c)" where
  "opwrap f fn r sc =
     (case sc of (st, c) \<Rightarrow>
        case f st r of ((r', err), st') \<Rightarrow>
          if err \<noteq> None then (err, (st', c))
          else if r' = None then (None, (st', c))
          else (case fn r' c of (e, c') \<Rightarrow> (e, (st', c'))))"

text \<open>The constructors and operators of \<open>Stream\<close>, the receiver first.\<close>

definition NewStream :: "'d Iterator \<Rightarrow> 'd Stream" where
  "NewStream i = \<lparr>it = Some i, op = None\<rparr>"

definition Pipe :: "'d Stream \<Rightarrow> 'd StreamOperator \<Rightarrow> 'd Stream" where
  "Pipe s sop = \<lparr>it = Some (asIterator s), op = Some sop\<rparr>"

definition Map :: "'d Stream \<Rightarrow> ('d Document \<Rightarrow> 'd Document \<times> error option) \<Rightarrow> 'd Stream" where
  "Map s fn = Pipe s (StreamOperator 0 (\<lambda>st r. (fn r, st)))"

definition Filter :: "'d Stream \<Rightarrow> ('d Document \<Rightarrow> bool \<times> error option) \<Rightarrow> 'd Stream" where
  "Filter s fn = Pipe s (StreamOperator 0 (\<lambda>st r.
     case fn r of (ok, err) \<Rightarrow>
       if err \<noteq> None then ((None, err), st)
       else if \<not> ok then ((None, None), st)
       else ((r, None), st)))"



text \<open>
  \<open>Append\<close>: the type assertion \<open>s.it.(multiIterator)\<close> succeeds only on a
  \<open>multiIterator\<close> (not on nil). In both branches the returned stream is \<open>s\<close> with
  the field \<open>it\<close> replaced, so it keeps the operator of \<open>s\<close>.

  The else branch allocates a fresh slice \<open>[]Iterator{s, it}\<close>, and the definition is
  the code. In the \<open>multiIterator\<close> branch the definition gives the stream as
  \<open>Append\<close> returns it, and no more: Go's \<open>append(mr.iterators, it)\<close> writes into
  the backing array of \<open>s.it\<close> when it has spare capacity, so the returned stream
  shares that array with \<open>s\<close>, and a later \<open>Append\<close> on the same \<open>s\<close> overwrites
  the element this one added. Streams are values here and that sharing is not
  modelled; nothing below is stated about the \<open>multiIterator\<close> branch.
\<close>

definition Append :: "'d Stream \<Rightarrow> 'd Iterator \<Rightarrow> 'd Stream" where
  "Append s i =
     (case it s of
        Some (multiIterator its) \<Rightarrow> s\<lparr>it := Some (multiIterator (its @ [i]))\<rparr>
      | _ \<Rightarrow> s\<lparr>it := Some (multiIterator [asIterator s, i])\<rparr>)"


definition First :: "'d Stream \<Rightarrow> 'd Document \<times> error option" where
  "First s =
     (case run_with (Stream_Iterate s) (\<lambda>rec r. (Some ErrStreamClosed, rec)) None of
        (err, r) \<Rightarrow> (r, if err = Some ErrStreamClosed then None else err))"

text \<open>
  To state what a stream passes on: \<open>collect\<close> is a callback that records the
  documents it is called with and never fails, \<open>produced b\<close> the documents recorded
  over an iteration. \<open>never_fails b\<close> says that the iteration ends with nil or
  \<open>ErrStreamClosed\<close> whether the callback answers nil or \<open>ErrStreamClosed\<close>: no
  iterator and no operator in it raises an error of its own.
\<close>

definition collect :: "'d Document \<Rightarrow> 'd Document list \<Rightarrow> error option \<times> 'd Document list" where
  "collect r seen = (None, seen @ [r])"





text \<open>Concrete functions, callbacks and streams over documents that are numbers.\<close>

definition alwaysTrue :: "nat Document \<Rightarrow> bool \<times> error option" where
  "alwaysTrue r = (True, None)"

definition increment :: "nat Document \<Rightarrow> nat Document \<times> error option" where
  "increment r = (map_option Suc r, None)"


definition closeAtOnce ::
  "nat Document \<Rightarrow> nat Document list \<Rightarrow> error option \<times> nat Document list" where
  "closeAtOnce r seen = (Some ErrStreamClosed, seen @ [r])"


definition filteredThenAppended :: "nat Stream" where
  "filteredThenAppended =
     Append (NewStream (asIterator (Filter (NewStream (NewIterator [Some 1])) alwaysTrue)))
            (NewIterator [Some 2])"


section \<open>Properties of the logical operators\<close>

text \<open>
  C5. If \<open>a\<close> evaluates without error to a falsy value, \<open>And(a, b).Eval\<close> returns the
  false literal and a nil error whatever \<open>b\<close> is; if \<open>a\<close> evaluates without error to a
  truthy value, \<open>Or(a, b).Eval\<close> returns the true literal and a nil error whatever
  \<open>b\<close> is. The right operand is not consulted, so an error it would produce is never
  seen.
\<close>

theorem And_Or_short_circuit:
  "(Eval a ctx = (s, None) \<and> \<not> IsTruthy s \<longrightarrow> Eval (And a b) ctx = (falseLitteral, None)) \<and>
   (Eval a ctx = (s, None) \<and> IsTruthy s \<longrightarrow> Eval (Or a b) ctx = (trueLitteral, None))"
  by simp

theorem And_Or_short_circuit_witness:
  "Eval falsyExpr () = (Int64Value 0, None) \<and> \<not> IsTruthy (Int64Value 0) \<and>
   Eval (And falsyExpr failingExpr) () = (falseLitteral, None) \<and>
   Eval truthyExpr () = (StringValue ''x'', None) \<and> IsTruthy (StringValue ''x'') \<and>
   Eval (Or truthyExpr failingExpr) () = (trueLitteral, None)"
proof -
  have f: "Eval falsyExpr () = (Int64Value 0, None) \<and> \<not> IsTruthy (Int64Value 0)"
    by (simp add: falsyExpr_def)
  have t: "Eval truthyExpr () = (StringValue ''x'', None) \<and> IsTruthy (StringValue ''x'')"
    by (simp add: truthyExpr_def)
  from f And_Or_short_circuit [of falsyExpr "()" "Int64Value 0" failingExpr]
  have 1: "Eval (And falsyExpr failingExpr) () = (falseLitteral, None)" by blast
  from t And_Or_short_circuit [of truthyExpr "()" "StringValue ''x''" failingExpr]
  have 2: "Eval (Or truthyExpr failingExpr) () = (trueLitteral, None)" by blast
  from f t 1 2 show ?thesis by blast
qed

section \<open>Properties of Open\<close>

text \<open>
  C9. \<open>Open(":memory:")\<close> asks for the in-memory engine, every other path asks for
  the on-disk engine rooted at that path with file mode 0660 (432 in decimal); an error
  of the engine constructor is returned unchanged, and otherwise the engine is passed
  to \<open>New\<close>, whose result is the result of \<open>Open\<close>.
\<close>

theorem Open_selects_engine:
  "Open NewEngine New '':memory:'' =
     (case NewEngine (BadgerEngine \<lparr>Dir = [], InMemory = True, Logger = None\<rparr>) of
        Inl err \<Rightarrow> Inl err | Inr ng \<Rightarrow> New ng) \<and>
   (path \<noteq> '':memory:'' \<longrightarrow>
      Open NewEngine New path =
        (case NewEngine (BoltEngine path 432 None) of
           Inl err \<Rightarrow> Inl err | Inr ng \<Rightarrow> New ng))"
  by (simp add: Open_def file_mode_0660_def)

theorem Open_selects_engine_witness:
  "''/tmp/db'' \<noteq> '':memory:'' \<and>
   Open (\<lambda>r. case r of BadgerEngine o1 \<Rightarrow> Inl (OtherError 1) | BoltEngine p m o2 \<Rightarrow> Inr (p, m))
        (\<lambda>ng. Inr (ng, True)) ''/tmp/db'' = (Inr ((''/tmp/db'', 432), True) :: error + _) \<and>
   Open (\<lambda>r. case r of BadgerEngine o1 \<Rightarrow> Inl (OtherError 1) | BoltEngine p m o2 \<Rightarrow> Inr (p, m))
        (\<lambda>ng. Inr (ng, True)) '':memory:'' = (Inl (OtherError 1) :: error + ((string \<times> nat) \<times> bool))"
  using Open_selects_engine [of "\<lambda>r. case r of BadgerEngine o1 \<Rightarrow> Inl (OtherError 1) | BoltEngine p m o2 \<Rightarrow> Inr (p, m)"
      "\<lambda>ng. Inr (ng, True)" "''/tmp/db''"]
  by simp

section \<open>Properties of the table catalog\<close>

lemma listCodec_round_trip: "codec_round_trip listCodec"
  by (auto simp: codec_round_trip_def listCodec_def)

lemma configFields_eq:
  "configFields cfg =
     [(''PrimaryKeyName'', StringValue (PrimaryKeyName cfg)),
      (''PrimaryKeyType'', Uint8Value (PrimaryKeyType cfg)),
      (''lastKey'', Int64Value (lastKey cfg))]"
  by (simp add: configFields_def Add_def)

text \<open>
  C2. With an engine that does not fail: \<open>Insert\<close> returns
  \<open>ErrTableAlreadyExists\<close> exactly when the store already holds an entry under the
  table name, and then leaves the store as it is. Otherwise, \<open>v\<close> being the encoding
  of the document with the three fields \<open>PrimaryKeyName\<close> (the name as a string
  value), \<open>PrimaryKeyType\<close> (the type as a uint8 value) and \<open>lastKey\<close> (the
  counter as an int64 value), in that order, \<open>Insert\<close> returns no error and the store
  holds \<open>v\<close> under the table name, its other entries unchanged.
\<close>

theorem Insert_already_exists_iff:
  assumes "failure st = None"
    and "EncodeDocument c
           [(''PrimaryKeyName'', StringValue (PrimaryKeyName cfg)),
            (''PrimaryKeyType'', Uint8Value (PrimaryKeyType cfg)),
            (''lastKey'', Int64Value (lastKey cfg))] = Inr v"
  shows "(fst (tableConfigStore_Insert c st name cfg) = Some ErrTableAlreadyExists
            \<longleftrightarrow> entries st name \<noteq> None) \<and>
         (entries st name \<noteq> None \<longrightarrow>
            tableConfigStore_Insert c st name cfg = (Some ErrTableAlreadyExists, st)) \<and>
         (entries st name = None \<longrightarrow>
            tableConfigStore_Insert c st name cfg =
              (None, st\<lparr>entries := (entries st)(name \<mapsto> v)\<rparr>))"
  using assms
  by (auto simp: tableConfigStore_Insert_def Store_Get_def Store_Put_def configFields_eq
      split: option.splits)

theorem Insert_already_exists_iff_witness:
  "failure emptyStore = None \<and>
   EncodeDocument listCodec
     [(''PrimaryKeyName'', StringValue (PrimaryKeyName usersConfig)),
      (''PrimaryKeyType'', Uint8Value (PrimaryKeyType usersConfig)),
      (''lastKey'', Int64Value (lastKey usersConfig))] =
     Inr [(''PrimaryKeyName'', StringValue ''id''),
          (''PrimaryKeyType'', Uint8Value 13),
          (''lastKey'', Int64Value 0)] \<and>
   entries emptyStore ''users'' = None \<and>
   tableConfigStore_Insert listCodec emptyStore ''users'' usersConfig = (None, usersStore) \<and>
   failure usersStore = None \<and>
   entries usersStore ''users'' \<noteq> None \<and>
   tableConfigStore_Insert listCodec usersStore ''users'' usersConfig2 =
     (Some ErrTableAlreadyExists, usersStore)"
proof -
  have e: "failure emptyStore = None" "entries emptyStore ''users'' = None"
    by (simp_all add: emptyStore_def)
  have u: "failure usersStore = None" "entries usersStore ''users'' \<noteq> None"
    by (simp_all add: usersStore_def)
  have enc: "EncodeDocument listCodec
     [(''PrimaryKeyName'', StringValue (PrimaryKeyName usersConfig)),
      (''PrimaryKeyType'', Uint8Value (PrimaryKeyType usersConfig)),
      (''lastKey'', Int64Value (lastKey usersConfig))] =
     Inr [(''PrimaryKeyName'', StringValue ''id''),
          (''PrimaryKeyType'', Uint8Value 13),
          (''lastKey'', Int64Value 0)]"
    by (simp add: listCodec_def usersConfig_def)
  have enc2: "EncodeDocument listCodec
     [(''PrimaryKeyName'', StringValue (PrimaryKeyName usersConfig2)),
      (''PrimaryKeyType'', Uint8Value (PrimaryKeyType usersConfig2)),
      (''lastKey'', Int64Value (lastKey usersConfig2))] =
     Inr [(''PrimaryKeyName'', StringValue []),
          (''PrimaryKeyType'', Uint8Value 0),
          (''lastKey'', Int64Value 41)]"
    by (simp add: listCodec_def usersConfig2_def)
  have upd: "emptyStore\<lparr>entries := (entries emptyStore)(''users'' \<mapsto>
       [(''PrimaryKeyName'', StringValue ''id''),
        (''PrimaryKeyType'', Uint8Value 13),
        (''lastKey'', Int64Value 0)])\<rparr> = usersStore"
    by (simp add: emptyStore_def usersStore_def)
  from Insert_already_exists_iff [OF e(1) enc, of "''users''"] e(2) upd
  have 1: "tableConfigStore_Insert listCodec emptyStore ''users'' usersConfig = (None, usersStore)"
    by simp
  from Insert_already_exists_iff [OF u(1) enc2, of "''users''"] u(2)
  have 2: "tableConfigStore_Insert listCodec usersStore ''users'' usersConfig2 =
     (Some ErrTableAlreadyExists, usersStore)"
    by blast
  from e u enc 1 2 show ?thesis by blast
qed

text \<open>
  C3. With an engine that does not fail: on a table name absent from the store,
  \<open>Replace\<close> and \<open>Delete\<close> both return \<open>ErrTableNotFound\<close> and leave the store as it
  is. On a table name present in the store, \<open>Replace\<close>, given a configuration and
  \<open>v\<close> being the encoding of the document with its three fields \<open>PrimaryKeyName\<close>,
  \<open>PrimaryKeyType\<close> and \<open>lastKey\<close> as in \<open>Insert\<close>, returns no error and the store
  holds \<open>v\<close> under the table name in place of the old entry; \<open>Delete\<close> returns no
  error and the entry is gone. In both cases the other entries are unchanged.
\<close>

theorem Replace_Delete_not_found:
  assumes "failure st = None"
  shows "(entries st name = None \<longrightarrow>
            tableConfigStore_Replace c st name cfg = (Some ErrTableNotFound, st) \<and>
            tableConfigStore_Delete st name = (Some ErrTableNotFound, st)) \<and>
         (entries st name \<noteq> None \<and>
          EncodeDocument c
            [(''PrimaryKeyName'', StringValue (PrimaryKeyName cfg')),
             (''PrimaryKeyType'', Uint8Value (PrimaryKeyType cfg')),
             (''lastKey'', Int64Value (lastKey cfg'))] = Inr v \<longrightarrow>
            tableConfigStore_Replace c st name (Some cfg') =
              (None, st\<lparr>entries := (entries st)(name \<mapsto> v)\<rparr>)) \<and>
         (entries st name \<noteq> None \<longrightarrow>
            tableConfigStore_Delete st name =
              (None, st\<lparr>entries := (entries st)(name := None)\<rparr>))"
  using assms
  by (auto simp: tableConfigStore_Replace_def tableConfigStore_Delete_def
      Store_Get_def Store_Put_def Store_Delete_def configFields_eq split: option.splits)

theorem Replace_Delete_not_found_witness:
  "failure emptyStore = None \<and> entries emptyStore ''users'' = None \<and>
   tableConfigStore_Replace listCodec emptyStore ''users'' (Some usersConfig2) =
     (Some ErrTableNotFound, emptyStore) \<and>
   tableConfigStore_Delete emptyStore ''users'' = (Some ErrTableNotFound, emptyStore) \<and>
   failure usersStore = None \<and> entries usersStore ''users'' \<noteq> None \<and>
   EncodeDocument listCodec
     [(''PrimaryKeyName'', StringValue (PrimaryKeyName usersConfig2)),
      (''PrimaryKeyType'', Uint8Value (PrimaryKeyType usersConfig2)),
      (''lastKey'', Int64Value (lastKey usersConfig2))] =
     Inr [(''PrimaryKeyName'', StringValue []),
          (''PrimaryKeyType'', Uint8Value 0),
          (''lastKey'', Int64Value 41)] \<and>
   tableConfigStore_Replace listCodec usersStore ''users'' (Some usersConfig2) =
     (None, usersStore2) \<and>
   tableConfigStore_Delete usersStore ''users'' = (None, noTables)"
proof -
  have e: "failure emptyStore = None" "entries emptyStore ''users'' = None"
    by (simp_all add: emptyStore_def)
  have u: "failure usersStore = None" "entries usersStore ''users'' \<noteq> None"
    by (simp_all add: usersStore_def)
  have enc: "EncodeDocument listCodec
     [(''PrimaryKeyName'', StringValue (PrimaryKeyName usersConfig2)),
      (''PrimaryKeyType'', Uint8Value (PrimaryKeyType usersConfig2)),
      (''lastKey'', Int64Value (lastKey usersConfig2))] =
     Inr [(''PrimaryKeyName'', StringValue []),
          (''PrimaryKeyType'', Uint8Value 0),
          (''lastKey'', Int64Value 41)]"
    by (simp add: listCodec_def usersConfig2_def)
  have upd: "usersStore\<lparr>entries := (entries usersStore)(''users'' \<mapsto>
       [(''PrimaryKeyName'', StringValue []),
        (''PrimaryKeyType'', Uint8Value 0),
        (''lastKey'', Int64Value 41)])\<rparr> = usersStore2"
    by (simp add: usersStore_def usersStore2_def)
  have del: "usersStore\<lparr>entries := (entries usersStore)(''users'' := None)\<rparr> = noTables"
    by (simp add: usersStore_def noTables_def)
  note a = Replace_Delete_not_found [OF e(1), of "''users''" listCodec "Some usersConfig2"]
  note b = Replace_Delete_not_found [OF u(1), of "''users''" listCodec _ usersConfig2
      "[(''PrimaryKeyName'', StringValue []), (''PrimaryKeyType'', Uint8Value 0),
        (''lastKey'', Int64Value 41)]"]
  from a e have 1:
    "tableConfigStore_Replace listCodec emptyStore ''users'' (Some usersConfig2) =
       (Some ErrTableNotFound, emptyStore)"
    "tableConfigStore_Delete emptyStore ''users'' = (Some ErrTableNotFound, emptyStore)"
    by blast+
  from b u enc upd have 2:
    "tableConfigStore_Replace listCodec usersStore ''users'' (Some usersConfig2) =
       (None, usersStore2)"
    by simp
  from b u del have 3: "tableConfigStore_Delete usersStore ''users'' = (None, noTables)"
    by simp
  from e u enc 1 2 3 show ?thesis by blast
qed

text \<open>
  C4. With a codec that keeps the promises of the spec (the encoding round-trips and
  a value converts to its own kind unchanged): if \<open>Insert(name, cfg)\<close> returns no
  error, then \<open>Get(name)\<close> on the resulting store returns a configuration equal to
  \<open>cfg\<close> in all three fields.
\<close>

theorem Insert_then_Get:
  assumes "codec_round_trip c"
    and "tableConfigStore_Insert c st name cfg = (None, st')"
  shows "tableConfigStore_Get c st' name = Inr cfg"
proof -
  from assms(2) obtain v where
    enc: "EncodeDocument c (configFields cfg) = Inr v" and
    put: "Store_Put st name v = (None, st')"
    by (auto simp: tableConfigStore_Insert_def split: sum.splits if_splits)
  from put have get: "Store_Get st' name = Inr v"
    by (auto simp: Store_Put_def Store_Get_def split: option.splits)
  have d: "distinct (map fst (configFields cfg))"
    by (simp add: configFields_eq)
  from assms(1) enc d have field:
    "\<And>f x. (f, x) \<in> set (configFields cfg) \<Longrightarrow> GetByField c v f = Inr x"
    unfolding codec_round_trip_def by blast
  have f1: "GetByField c v ''PrimaryKeyName'' = Inr (StringValue (PrimaryKeyName cfg))"
    by (rule field) (simp add: configFields_eq)
  have f2: "GetByField c v ''PrimaryKeyType'' = Inr (Uint8Value (PrimaryKeyType cfg))"
    by (rule field) (simp add: configFields_eq)
  have f3: "GetByField c v ''lastKey'' = Inr (Int64Value (lastKey cfg))"
    by (rule field) (simp add: configFields_eq)
  from assms(1) have conv:
    "ConvertToString c (StringValue (PrimaryKeyName cfg)) = Inr (PrimaryKeyName cfg)"
    "ConvertToUint8 c (Uint8Value (PrimaryKeyType cfg)) = Inr (PrimaryKeyType cfg)"
    "ConvertToInt64 c (Int64Value (lastKey cfg)) = Inr (lastKey cfg)"
    unfolding codec_round_trip_def by simp_all
  show ?thesis
    by (simp add: tableConfigStore_Get_def get f1 f2 f3 conv)
qed

theorem Insert_then_Get_witness:
  "codec_round_trip listCodec \<and>
   tableConfigStore_Insert listCodec emptyStore ''users'' usersConfig = (None, usersStore) \<and>
   tableConfigStore_Get listCodec usersStore ''users'' = Inr usersConfig"
proof -
  have i: "tableConfigStore_Insert listCodec emptyStore ''users'' usersConfig = (None, usersStore)"
    by (simp add: tableConfigStore_Insert_def Store_Get_def Store_Put_def emptyStore_def
        usersStore_def listCodec_def configFields_def Add_def usersConfig_def)
  from Insert_then_Get [OF listCodec_round_trip i] listCodec_round_trip i
  show ?thesis by blast
qed

section \<open>Running an iteration\<close>

lemma opwrap_step:
  "opwrap f fn r (st, c) =
     (case f st r of ((r', err), st') \<Rightarrow>
        if err \<noteq> None then (err, (st', c))
        else if r' = None then (None, (st', c))
        else (case fn r' c of (e, c') \<Rightarrow> (e, (st', c'))))"
  by (simp add: opwrap_def)


lemma run_with_andThen:
  "run_with (andThen b f) fn c = (case run_with b fn c of (err, c') \<Rightarrow> run_with (f err) fn c')"
  by (induction b arbitrary: c) (auto split: prod.splits)

text \<open>
  \<open>through\<close> is the iteration of \<open>s.it\<close> against the closure of \<open>Stream.Iterate\<close>:
  running it with \<open>fn\<close> gives what running the iteration of \<open>s.it\<close> with the closure
  gives, the counter of the operator left out.
\<close>

lemma run_with_through:
  "run_with (through f b st) fn c =
     (case run_with b (opwrap f fn) (st, c) of (err, (st', c')) \<Rightarrow> (err, c'))"
proof (induction b arbitrary: st c)
  case (Return err)
  show ?case by simp
next
  case (Call r k)
  show ?case
    by (simp add: opwrap_step Call split: prod.splits)
qed

lemma run_with_Stream_op:
  "run_with (Iterate (StreamIterator (Some src) (Some sop))) fn c =
     (case run_with (Iterate src) (opwrap (opFn sop) fn) (start sop, c) of
        (err, (st', c')) \<Rightarrow> (if err \<noteq> Some ErrStreamClosed then err else None, c'))"
  by (simp add: run_with_andThen run_with_through split: prod.splits)





section \<open>Properties of Stream.Iterate\<close>

text \<open>
  C1, as the code has it. For a stream with an operator (built by \<open>Pipe\<close>, \<open>Map\<close>,
  \<open>Filter\<close>, \<open>Limit\<close> or \<open>Offset\<close>), \<open>Stream.Iterate\<close> returns what the
  iteration of \<open>s.it\<close> with the wrapping closure returns, except that
  \<open>ErrStreamClosed\<close> becomes nil: any other error is returned as it is, and
  \<open>ErrStreamClosed\<close> is never returned. For a stream without operator,
  \<open>Stream.Iterate\<close> returns whatever \<open>s.it.Iterate(fn)\<close> returns,
  \<open>ErrStreamClosed\<close> included; for a stream without iterator it returns nil and never
  calls \<open>fn\<close>.
\<close>

theorem Stream_Iterate_translates_ErrStreamClosed:
  "run_with (Stream_Iterate \<lparr>it = Some src, op = Some sop\<rparr>) fn c =
     (case run_with (Iterate src) (opwrap (opFn sop) fn) (start sop, c) of
        (err, (st', c')) \<Rightarrow> (if err \<noteq> Some ErrStreamClosed then err else None, c')) \<and>
   fst (run_with (Stream_Iterate \<lparr>it = Some src, op = Some sop\<rparr>) fn c) \<noteq> Some ErrStreamClosed \<and>
   run_with (Stream_Iterate \<lparr>it = Some src, op = None\<rparr>) fn c = run_with (Iterate src) fn c \<and>
   run_with (Stream_Iterate \<lparr>it = None, op = any\<rparr>) fn c = (None, c)"
  by (auto simp: Stream_Iterate_def asIterator_def run_with_Stream_op simp del: Iterate.simps(4)
      split: prod.splits)

text \<open>
  The claim as stated fails on a stream without operator: the callback returns
  \<open>ErrStreamClosed\<close> on the first document and \<open>Stream.Iterate\<close> returns
  \<open>ErrStreamClosed\<close>, not nil.
\<close>

theorem Iterate_without_operator_returns_ErrStreamClosed:
  "run_with (Stream_Iterate (NewStream (NewIterator [Some 1, Some 2]))) closeAtOnce [] =
     (Some ErrStreamClosed, [Some 1])"
  by (simp add: Stream_Iterate_def asIterator_def NewStream_def NewIterator_def closeAtOnce_def)

section \<open>Properties of Limit, Offset and Count\<close>
















section \<open>Properties of Filter\<close>









section \<open>Properties of Append\<close>

text \<open>
  On a stream without operator whose iterator is not a \<open>multiIterator\<close>, \<open>Append\<close>
  concatenates: iterating \<open>s.Append(it)\<close> with \<open>fn\<close> is iterating \<open>s\<close> with
  \<open>fn\<close> and then, unless that returned an error, iterating \<open>it\<close> with \<open>fn\<close>.
\<close>

lemma Append_no_op:
  assumes "op s = None" and "\<And>its. it s \<noteq> Some (multiIterator its)"
  shows "run_with (Stream_Iterate (Append s i)) fn c =
     (case run_with (Stream_Iterate s) fn c of
        (err, c') \<Rightarrow> if err \<noteq> None then (err, c') else run_with (Iterate i) fn c')"
proof (cases "it s")
  case None
  with assms(1) show ?thesis
    by (auto simp: Append_def Stream_Iterate_def asIterator_def run_with_andThen
        split: prod.splits)
next
  case (Some src)
  show ?thesis
  proof (cases src)
    case (multiIterator its)
    with Some assms(2) show ?thesis by simp
  qed (use Some assms(1) in \<open>auto simp: Append_def Stream_Iterate_def asIterator_def
          run_with_andThen split: prod.splits\<close>)
qed

text \<open>
  C8. The claim: iterating \<open>s.Append(it)\<close> passes the documents that iterating \<open>s\<close>
  produces, the operator of \<open>s\<close> applied once, followed by the documents of \<open>it\<close>
  unchanged. The stream that \<open>Append\<close> returns keeps the operator of \<open>s\<close> and
  iterates \<open>s\<close> as its first iterator, so on a stream with an operator the documents
  of \<open>s\<close> go through the operator twice and those of the appended iterator once.
  With a \<open>Map\<close> that adds one, \<open>s\<close> alone passes 2; \<open>s.Append(it)\<close> with \<open>it\<close>
  holding 10 passes 3 and 11, where the claim has 2 and 10.
\<close>

theorem Append_applies_operator_again:
  "run_with (Stream_Iterate (Map (NewStream (NewIterator [Some 1])) increment)) collect [] =
     (None, [Some 2]) \<and>
   run_with (Stream_Iterate (Append (Map (NewStream (NewIterator [Some 1])) increment)
       (NewIterator [Some 10]))) collect [] = (None, [Some 3, Some 11])"
  by (simp add: Append_def Map_def Pipe_def Stream_Iterate_def asIterator_def NewStream_def
      NewIterator_def collect_def increment_def)

section \<open>First on an appended stream\<close>

text \<open>
  C10. \<open>First\<close> is documented to return the first document found. On the stream
  \<open>NewStream(f).Append(NewIterator(d2))\<close>, where \<open>f\<close> is
  \<open>NewStream(NewIterator(d1)).Filter(alwaysTrue)\<close>, the documents that reach the
  callback are \<open>d1\<close> and then \<open>d2\<close>, and \<open>First\<close> returns \<open>d2\<close>: the
  \<open>ErrStreamClosed\<close> that the callback of \<open>First\<close> returns on \<open>d1\<close> is turned
  into nil by the \<open>Iterate\<close> of \<open>f\<close>, so the loop of \<open>multiIterator.Iterate\<close>
  goes on with the next iterator and the callback overwrites its result.
\<close>

theorem First_returns_later_document:
  "run_with (Stream_Iterate filteredThenAppended) collect [] = (None, [Some 1, Some 2]) \<and>
   First filteredThenAppended = (Some 2, None)"
  by (simp add: filteredThenAppended_def First_def Append_def Filter_def Pipe_def
      Stream_Iterate_def asIterator_def NewStream_def NewIterator_def collect_def alwaysTrue_def)

end
